theory Spec2Isabelle
  imports Main "HOL-Library.Sublist"
begin

section \<open>String operations of the source\<close>

text \<open>
  A JavaScript string is modelled as a \<^typ>\<open>string\<close> (a list of characters). The source
  only removes non-digits, tests for a literal prefix or substring, drops the first
  character, concatenates and takes the length of an all-digit string, so the model
  does not depend on how characters beyond ASCII are encoded.
\<close>

definition isDigit :: "char \<Rightarrow> bool" where
  \<comment> \<open>the complement of the regular expression class \<open>\D\<close>\<close>
  "isDigit c = (c \<in> set ''0123456789'')"

definition stripNonDigits :: "string \<Rightarrow> string" where
  \<comment> \<open>\<open>number.replace(/\D/g, '')\<close>\<close>
  "stripNonDigits number = filter isDigit number"

fun startsWith :: "string \<Rightarrow> string \<Rightarrow> bool" where
  "startsWith s [] = True"
| "startsWith [] (p # ps) = False"
| "startsWith (c # cs) (p # ps) = (c = p \<and> startsWith cs ps)"

fun str_includes :: "string \<Rightarrow> string \<Rightarrow> bool" where
  \<comment> \<open>\<open>s.includes(t)\<close>: \<open>t\<close> occurs in \<open>s\<close> at some position\<close>
  "str_includes [] t = (t = [])"
| "str_includes (c # cs) t = (startsWith (c # cs) t \<or> str_includes cs t)"

definition substring :: "string \<Rightarrow> nat \<Rightarrow> string" where
  \<comment> \<open>\<open>s.substring(n)\<close> with one argument\<close>
  "substring s n = drop n s"

section \<open>Phone number validation and formatting\<close>

definition isValidPhoneNumber :: "string \<Rightarrow> bool" where
  "isValidPhoneNumber number =
     (let cleanNumber = stripNonDigits number
      in length cleanNumber \<ge> 10 \<and> length cleanNumber \<le> 15)"

definition formatPhoneNumber :: "string \<Rightarrow> string" where
  "formatPhoneNumber number =
     (let cleanNumber = stripNonDigits number;
          cleanNumber = (if startsWith cleanNumber ''0''
                         then ''62'' @ substring cleanNumber 1 else cleanNumber);
          cleanNumber = (if \<not> startsWith cleanNumber ''62'' \<and> length cleanNumber > 10
                         then ''62'' @ cleanNumber else cleanNumber)
      in cleanNumber @ ''@c.us'')"

definition chatIdOf :: "string \<Rightarrow> string" where
  \<comment> \<open>\<open>number.includes('@c.us') ? number : formatPhoneNumber(number)\<close>\<close>
  "chatIdOf number =
     (if str_includes number ''@c.us'' then number else formatPhoneNumber number)"

text \<open>
  The normalisation rule as the specification words it: a leading \<open>0\<close> is replaced by
  the country prefix; otherwise the prefix is prepended when the digits do not start
  with it and there are more than ten of them; the domain suffix is appended.
\<close>

definition normalizeSpec :: "string \<Rightarrow> string" where
  "normalizeSpec raw =
     (let d = stripNonDigits raw
      in (if startsWith d ''0'' then ''62'' @ tl d
          else if \<not> startsWith d ''62'' \<and> length d > 10 then ''62'' @ d
          else d) @ ''@c.us'')"

text \<open>
  The digits of a canonical address: what stands before the five characters of the
  domain suffix. The specification calls it the canonical digit portion.
\<close>

definition digitPortion :: "string \<Rightarrow> string" where
  "digitPortion address = take (length address - length ''@c.us'') address"

section \<open>Responses and collaborator outcomes\<close>

datatype json = JBool bool | JString string

record response =
  statusCode :: nat
  body :: "(string \<times> json) list"

definition respond :: "nat \<Rightarrow> (string \<times> json) list \<Rightarrow> response" where
  \<comment> \<open>\<open>res.status(code).json({...})\<close>; \<open>res.json\<close> alone answers 200\<close>
  "respond c entries = \<lparr>statusCode = c, body = entries\<rparr>"

text \<open>
  What awaiting a promise of the WhatsApp client gives: the resolved value, or a thrown
  \<open>Error\<close> of which the handlers read only the \<open>message\<close> string.
\<close>

datatype 'a outcome = Resolved 'a | Rejected string

section \<open>The session state\<close>

text \<open>
  The two module-level variables, and the work the event loop still holds: timers armed
  by \<open>setTimeout\<close> and route handlers suspended at an \<open>await\<close>. Time is abstracted to
  the order in which callbacks run.
\<close>

datatype timer = AuthGrace | LoadingGrace | Reinitialize

datatype task =
    Timer timer
  | AwaitSend string string
  | AwaitGetState
  | AwaitDestroy

record state =
  isClientReady :: bool
  clientState :: string
  tasks :: "task list"

definition initialState :: state where
  "initialState = \<lparr>isClientReady = False, clientState = ''INITIALIZING'', tasks = []\<rparr>"

subsection \<open>Handlers of the client's events\<close>

definition on_qr :: "state \<Rightarrow> state" where
  "on_qr s = s\<lparr>isClientReady := False, clientState := ''QR_GENERATED''\<rparr>"

definition on_ready :: "state \<Rightarrow> state" where
  "on_ready s = s\<lparr>isClientReady := True, clientState := ''CONNECTED''\<rparr>"

definition on_authenticated :: "state \<Rightarrow> state" where
  "on_authenticated s =
     s\<lparr>clientState := ''AUTHENTICATED'', tasks := tasks s @ [Timer AuthGrace]\<rparr>"

definition on_auth_failure :: "state \<Rightarrow> state" where
  "on_auth_failure s = s\<lparr>isClientReady := False, clientState := ''AUTH_FAILURE''\<rparr>"

definition on_disconnected :: "state \<Rightarrow> state" where
  "on_disconnected s = s\<lparr>isClientReady := False, clientState := ''DISCONNECTED''\<rparr>"

definition on_loading_screen :: "int \<Rightarrow> state \<Rightarrow> state" where
  \<comment> \<open>the progress is compared with 100 and not used otherwise\<close>
  "on_loading_screen percent s =
     (let s1 = s\<lparr>clientState := ''LOADING''\<rparr>
      in if percent = 100 then s1\<lparr>tasks := tasks s1 @ [Timer LoadingGrace]\<rparr> else s1)"

subsection \<open>Timer callbacks\<close>

fun timeout :: "timer \<Rightarrow> state \<Rightarrow> state" where
  "timeout AuthGrace s =
     (if clientState s = ''AUTHENTICATED''
      then s\<lparr>isClientReady := True, clientState := ''CONNECTED''\<rparr> else s)"
| "timeout LoadingGrace s =
     (if \<not> isClientReady s
      then s\<lparr>isClientReady := True, clientState := ''CONNECTED''\<rparr> else s)"
| "timeout Reinitialize s = s"

section \<open>The HTTP routes\<close>

text \<open>
  A request carries the secret key of the header \<open>x-secret-key\<close> and of the body field
  \<open>secret_key\<close>, and the body fields \<open>number\<close> and \<open>message\<close>; a field may be
  absent, and a present one is a string. A handler is split where it awaits the
  client: the part before, and the part that runs once the promise has settled, on the
  state of that moment.
\<close>

record request =
  headerKey :: "string option"
  bodyKey :: "string option"
  number :: "string option"
  message :: "string option"

definition truthy :: "string option \<Rightarrow> bool" where
  \<comment> \<open>a missing field and the empty string are falsy\<close>
  "truthy v = (case v of None \<Rightarrow> False | Some x \<Rightarrow> x \<noteq> [])"

definition validateSecretKey :: "string option \<Rightarrow> request \<Rightarrow> response option" where
  \<comment> \<open>\<open>None\<close> is \<open>next()\<close>; the first argument is \<open>process.env.SECRET_KEY\<close>\<close>
  "validateSecretKey envKey req =
     (let secretKey = (if truthy (headerKey req) then headerKey req else bodyKey req)
      in if \<not> truthy secretKey
         then Some (respond 401 [(''status'', JBool False),
                (''message'', JString ''Secret key diperlukan. Gunakan header x-secret-key atau body secret_key'')])
         else if secretKey \<noteq> envKey
         then Some (respond 401 [(''status'', JBool False),
                (''message'', JString ''Secret key tidak valid'')])
         else None)"

subsection \<open>POST /send-message\<close>

definition missingParameters :: response where
  "missingParameters = respond 400 [(''status'', JBool False),
     (''message'', JString ''Parameter number dan message wajib diisi'')]"

definition invalidNumber :: response where
  "invalidNumber = respond 400 [(''status'', JBool False),
     (''message'', JString ''Format nomor telepon tidak valid'')]"

definition notReady :: "state \<Rightarrow> response" where
  "notReady s = respond 503 [(''status'', JBool False),
     (''message'', JString (''WhatsApp client tidak ready. Status: '' @ clientState s
        @ ''. Tunggu beberapa saat lagi.''))]"

text \<open>
  The handler up to its first \<open>await\<close>: an early response, or the address and text it
  goes on to pass to \<open>client.sendMessage\<close> after the pacing delay.
\<close>

fun sendMessageGate :: "state \<Rightarrow> string option \<Rightarrow> string option \<Rightarrow> response + string \<times> string" where
  "sendMessageGate s (Some n) (Some m) =
     (if n = [] \<or> m = [] then Inl missingParameters
      else if \<not> isValidPhoneNumber n then Inl invalidNumber
      else if \<not> isClientReady s
              \<or> (clientState s \<noteq> ''CONNECTED'' \<and> clientState s \<noteq> ''AUTHENTICATED'')
      then Inl (notReady s)
      else Inr (chatIdOf n, m))"
| "sendMessageGate s _ _ = Inl missingParameters"

text \<open>
  The rest of the handler, run on the state current when \<open>client.sendMessage\<close> settles:
  the success response, or the \<open>catch\<close> block's classification of the error message.
\<close>

definition sendMessageSettle :: "string \<Rightarrow> string outcome \<Rightarrow> state \<Rightarrow> response \<times> state" where
  "sendMessageSettle chatId sent s =
     (case sent of
        Resolved serialized \<Rightarrow>
          (respond 200 [(''status'', JBool True),
             (''message'', JString ''Pesan berhasil dikirim''),
             (''to'', JString chatId), (''messageId'', JString serialized)], s)
      | Rejected msg \<Rightarrow>
          if str_includes msg ''Chat not found''
          then (respond 404 [(''status'', JBool False),
             (''message'', JString ''Nomor WhatsApp tidak valid atau tidak terdaftar'')], s)
          else if str_includes msg ''phone number is not registered''
          then (respond 404 [(''status'', JBool False),
             (''message'', JString ''Nomor WhatsApp tidak terdaftar'')], s)
          else if str_includes msg ''Evaluation failed''
          then (respond 503 [(''status'', JBool False),
             (''message'', JString ''Terjadi kesalahan pada WhatsApp session. Silakan restart aplikasi.'')],
             s\<lparr>isClientReady := False, clientState := ''ERROR''\<rparr>)
          else (respond 500 [(''status'', JBool False),
             (''message'', JString ''Gagal mengirim pesan''), (''error'', JString msg)], s))"

text \<open>
  The whole handler when nothing else runs while it is suspended. The first argument is
  the client's \<open>sendMessage\<close>; the third component lists the calls made to it.
\<close>

definition sendMessageHandler ::
  "(string \<Rightarrow> string \<Rightarrow> string outcome) \<Rightarrow> string option \<Rightarrow> string option \<Rightarrow> state
     \<Rightarrow> response \<times> state \<times> (string \<times> string) list" where
  "sendMessageHandler send num msg s =
     (case sendMessageGate s num msg of
        Inl r \<Rightarrow> (r, s, [])
      | Inr (chatId, m) \<Rightarrow>
          (let (r, s') = sendMessageSettle chatId (send chatId m) s
           in (r, s', [(chatId, m)])))"

definition postSendMessage ::
  "string option \<Rightarrow> (string \<Rightarrow> string \<Rightarrow> string outcome) \<Rightarrow> request \<Rightarrow> state
     \<Rightarrow> response \<times> state \<times> (string \<times> string) list" where
  "postSendMessage envKey send req s =
     (case validateSecretKey envKey req of
        Some r \<Rightarrow> (r, s, [])
      | None \<Rightarrow> sendMessageHandler send (number req) (message req) s)"

subsection \<open>GET /status\<close>

definition statusResponse :: "bool \<Rightarrow> string \<Rightarrow> string \<Rightarrow> response" where
  "statusResponse ready current now = respond 200 [(''status'', JBool True),
     (''message'', JString ''API WhatsApp berjalan normal''),
     (''clientReady'', JBool ready), (''clientState'', JString current),
     (''timestamp'', JString now)]"

text \<open>
  Up to the \<open>await\<close>: the response when the flag is off, or the suspension on
  \<open>client.getState()\<close>. The last argument of the response is the time stamp.
\<close>

definition statusGate :: "string \<Rightarrow> state \<Rightarrow> response + unit" where
  "statusGate now s =
     (if isClientReady s then Inr ()
      else Inl (statusResponse (isClientReady s) (clientState s) now))"

definition statusSettle :: "string outcome \<Rightarrow> string \<Rightarrow> state \<Rightarrow> response \<times> state" where
  "statusSettle live now s =
     (case live of
        Resolved current \<Rightarrow> (statusResponse (isClientReady s) current now, s)
      | Rejected msg \<Rightarrow>
          (let s' = s\<lparr>isClientReady := False\<rparr>
           in (statusResponse (isClientReady s') ''ERROR'' now, s')))"

definition statusHandler :: "string outcome \<Rightarrow> string \<Rightarrow> state \<Rightarrow> response \<times> state" where
  \<comment> \<open>the handler when nothing else runs while it is suspended\<close>
  "statusHandler live now s =
     (case statusGate now s of Inl r \<Rightarrow> (r, s) | Inr u \<Rightarrow> statusSettle live now s)"

definition getStatus ::
  "string option \<Rightarrow> string outcome \<Rightarrow> string \<Rightarrow> request \<Rightarrow> state \<Rightarrow> response \<times> state" where
  "getStatus envKey live now req s =
     (case validateSecretKey envKey req of
        Some r \<Rightarrow> (r, s)
      | None \<Rightarrow> statusHandler live now s)"

subsection \<open>GET /restart\<close>

definition restartGate :: "state \<Rightarrow> state" where
  \<comment> \<open>the assignments before \<open>await client.destroy()\<close>\<close>
  "restartGate s = s\<lparr>isClientReady := False, clientState := ''RESTARTING''\<rparr>"

definition restartSettle :: "unit outcome \<Rightarrow> state \<Rightarrow> response \<times> state" where
  "restartSettle destroyed s =
     (case destroyed of
        Resolved u \<Rightarrow>
          (respond 200 [(''status'', JBool True),
             (''message'', JString ''Client WhatsApp sedang di-restart'')],
           s\<lparr>tasks := tasks s @ [Timer Reinitialize]\<rparr>)
      | Rejected msg \<Rightarrow>
          (respond 500 [(''status'', JBool False),
             (''message'', JString ''Gagal restart client''), (''error'', JString msg)], s))"

section \<open>The event loop\<close>

text \<open>
  One callback runs at a time, to its end or to its next \<open>await\<close>. An event is an event
  of the client, the firing of an armed timer, an incoming request, or the settling of
  the promise a suspended handler waits for. A timer that is not armed cannot fire and
  a handler that is not suspended cannot resume: the step is \<open>None\<close>.
\<close>

datatype event =
    Qr
  | Ready
  | Authenticated
  | AuthFailure
  | Disconnected
  | LoadingScreen int
  | Fires timer
  | PostSendMessage request
  | SendSettles string string "string outcome"
  | GetStatus request string
  | StatusSettles "string outcome" string
  | GetRestart request
  | RestartSettles "unit outcome"

definition resume :: "task \<Rightarrow> (state \<Rightarrow> state) \<Rightarrow> state \<Rightarrow> state option" where
  "resume t k s =
     (if t \<in> set (tasks s) then Some (k (s\<lparr>tasks := remove1 t (tasks s)\<rparr>)) else None)"

fun step :: "string option \<Rightarrow> event \<Rightarrow> state \<Rightarrow> state option" where
  "step envKey Qr s = Some (on_qr s)"
| "step envKey Ready s = Some (on_ready s)"
| "step envKey Authenticated s = Some (on_authenticated s)"
| "step envKey AuthFailure s = Some (on_auth_failure s)"
| "step envKey Disconnected s = Some (on_disconnected s)"
| "step envKey (LoadingScreen percent) s = Some (on_loading_screen percent s)"
| "step envKey (Fires t) s = resume (Timer t) (timeout t) s"
| "step envKey (PostSendMessage req) s =
     (case validateSecretKey envKey req of
        Some r \<Rightarrow> Some s
      | None \<Rightarrow>
          (case sendMessageGate s (number req) (message req) of
             Inl r \<Rightarrow> Some s
           | Inr (chatId, m) \<Rightarrow> Some (s\<lparr>tasks := tasks s @ [AwaitSend chatId m]\<rparr>)))"
| "step envKey (SendSettles chatId m sent) s =
     resume (AwaitSend chatId m) (\<lambda>s1. snd (sendMessageSettle chatId sent s1)) s"
| "step envKey (GetStatus req now) s =
     (case validateSecretKey envKey req of
        Some r \<Rightarrow> Some s
      | None \<Rightarrow>
          (case statusGate now s of
             Inl r \<Rightarrow> Some s
           | Inr u \<Rightarrow> Some (s\<lparr>tasks := tasks s @ [AwaitGetState]\<rparr>)))"
| "step envKey (StatusSettles live now) s =
     resume AwaitGetState (\<lambda>s1. snd (statusSettle live now s1)) s"
| "step envKey (GetRestart req) s =
     (case validateSecretKey envKey req of
        Some r \<Rightarrow> Some s
      | None \<Rightarrow> Some ((restartGate s)\<lparr>tasks := tasks (restartGate s) @ [AwaitDestroy]\<rparr>))"
| "step envKey (RestartSettles destroyed) s =
     resume AwaitDestroy (\<lambda>s1. snd (restartSettle destroyed s1)) s"

fun run :: "string option \<Rightarrow> event list \<Rightarrow> state \<Rightarrow> state option" where
  "run envKey [] s = Some s"
| "run envKey (e # es) s =
     (case step envKey e s of None \<Rightarrow> None | Some s' \<Rightarrow> run envKey es s')"

text \<open>
  The flag is on only in one of the given states. The contract the specification
  gives for the flag names two states; a weaker one also admits \<open>LOADING\<close>.
\<close>

definition readyOnlyIn :: "string set \<Rightarrow> state \<Rightarrow> bool" where
  "readyOnlyIn S s = (isClientReady s \<longrightarrow> clientState s \<in> S)"

definition readyContract :: "state \<Rightarrow> bool" where
  "readyContract s = readyOnlyIn {''AUTHENTICATED'', ''CONNECTED''} s"

definition readyContractLoading :: "state \<Rightarrow> bool" where
  "readyContractLoading s = readyOnlyIn {''AUTHENTICATED'', ''CONNECTED'', ''LOADING''} s"

section \<open>Facts about the string operations\<close>

lemma startsWith_prefix: "startsWith s p = prefix p s"
  by (induction s p rule: startsWith.induct) auto

lemma str_includes_sublist: "str_includes s t = sublist t s"
proof (induction s)
  case Nil
  show ?case by simp
next
  case (Cons c cs)
  show ?case
  proof (cases t)
    case Nil
    then show ?thesis by simp
  next
    case (Cons a as)
    with Cons.IH show ?thesis
      by (simp add: startsWith_prefix sublist_Cons_right)
  qed
qed

lemma suffix_str_includes: "suffix t s \<Longrightarrow> str_includes s t"
  by (simp add: str_includes_sublist)

lemma str_includes_append_right: "str_includes (d @ t) t"
  by (simp add: str_includes_sublist)

lemma formatPhoneNumber_shape:
  "formatPhoneNumber raw = digitPortion (formatPhoneNumber raw) @ ''@c.us''"
  by (simp add: formatPhoneNumber_def digitPortion_def Let_def)

lemma chatIdOf_idempotent: "chatIdOf (chatIdOf raw) = chatIdOf raw"
proof (cases "str_includes raw ''@c.us''")
  case True
  then show ?thesis by (simp add: chatIdOf_def)
next
  case False
  have "str_includes (formatPhoneNumber raw) ''@c.us''"
    using str_includes_append_right [of "digitPortion (formatPhoneNumber raw)" "''@c.us''"]
      formatPhoneNumber_shape [of raw] by simp
  with False show ?thesis by (simp add: chatIdOf_def)
qed

lemma digits_filter: "list_all isDigit (stripNonDigits raw)"
  by (simp add: stripNonDigits_def list_all_iff)

lemma valid_nonempty: "isValidPhoneNumber n \<Longrightarrow> n \<noteq> []"
  by (auto simp: isValidPhoneNumber_def stripNonDigits_def)

section \<open>Facts about the handlers\<close>

lemmas handler_defs = on_qr_def on_ready_def on_authenticated_def on_auth_failure_def
  on_disconnected_def on_loading_screen_def

lemma resume_Some:
  "resume t k s = Some s' \<Longrightarrow> s' = k (s\<lparr>tasks := remove1 t (tasks s)\<rparr>)"
  by (simp add: resume_def split: if_splits)

lemma sendMessageSettle_flag:
  "isClientReady (snd (sendMessageSettle c sent s)) \<Longrightarrow> isClientReady s"
  by (simp add: sendMessageSettle_def split: outcome.splits if_splits)

lemma sendMessageSettle_state:
  "isClientReady (snd (sendMessageSettle c sent s)) \<Longrightarrow>
   clientState (snd (sendMessageSettle c sent s)) = clientState s"
  by (simp add: sendMessageSettle_def split: outcome.splits if_splits)

lemma statusSettle_flag:
  "isClientReady (snd (statusSettle live now s)) \<Longrightarrow> isClientReady s"
  by (simp add: statusSettle_def split: outcome.splits)

lemma statusSettle_state:
  "clientState (snd (statusSettle live now s)) = clientState s"
  by (simp add: statusSettle_def split: outcome.splits)

lemma restartSettle_flag:
  "isClientReady (snd (restartSettle d s)) = isClientReady s"
  by (simp add: restartSettle_def split: outcome.splits)

lemma restartSettle_state:
  "clientState (snd (restartSettle d s)) = clientState s"
  by (simp add: restartSettle_def split: outcome.splits)

lemma loading_screen_effect:
  "isClientReady (on_loading_screen p s) = isClientReady s
   \<and> clientState (on_loading_screen p s) = ''LOADING''"
  by (simp add: on_loading_screen_def Let_def)

lemma gate_invalid:
  assumes "\<not> isValidPhoneNumber n"
  shows "sendMessageGate s (Some n) msg = Inl missingParameters
      \<or> sendMessageGate s (Some n) msg = Inl invalidNumber"
  using assms by (cases msg) simp_all

lemma handler_invalid:
  assumes "\<not> isValidPhoneNumber n"
  shows "statusCode (fst (sendMessageHandler send (Some n) msg s)) = 400
    \<and> snd (sendMessageHandler send (Some n) msg s) = (s, [])"
  using gate_invalid [OF assms, of s msg]
  by (auto simp: sendMessageHandler_def missingParameters_def invalidNumber_def respond_def)

lemma readyOnlyIn_tasks [simp]: "readyOnlyIn S (s\<lparr>tasks := ts\<rparr>) = readyOnlyIn S s"
  by (simp add: readyOnlyIn_def)

lemma timeout_readyOnlyIn:
  "''CONNECTED'' \<in> S \<Longrightarrow> readyOnlyIn S s \<Longrightarrow> readyOnlyIn S (timeout t s)"
  by (cases t) (auto simp: readyOnlyIn_def)

text \<open>
  One step of the event loop keeps the flag within a set of states that holds
  \<open>AUTHENTICATED\<close> and \<open>CONNECTED\<close>, unless the step is a loading-screen event and the
  set lacks \<open>LOADING\<close>.
\<close>

lemma step_readyOnlyIn:
  assumes inv: "readyOnlyIn S s" and st: "step envKey e s = Some s'"
    and S: "''AUTHENTICATED'' \<in> S" "''CONNECTED'' \<in> S"
    and ld: "(\<forall>p. e \<noteq> LoadingScreen p) \<or> ''LOADING'' \<in> S"
  shows "readyOnlyIn S s'"
proof (cases e)
  case (LoadingScreen p)
  with st have "s' = on_loading_screen p s" by simp
  with inv ld LoadingScreen show ?thesis
    using loading_screen_effect [of p s] by (simp add: readyOnlyIn_def)
next
  case (Fires t)
  with inv st S show ?thesis
    by (auto dest!: resume_Some simp: timeout_readyOnlyIn)
next
  case (PostSendMessage req)
  with inv st show ?thesis
    by (auto split: option.splits sum.splits)
next
  case (SendSettles c m sent)
  with st have s': "s' = snd (sendMessageSettle c sent (s\<lparr>tasks := remove1 (AwaitSend c m) (tasks s)\<rparr>))"
    by (auto dest!: resume_Some)
  show ?thesis
    unfolding readyOnlyIn_def
  proof
    assume r: "isClientReady s'"
    from r s' have "isClientReady s"
      using sendMessageSettle_flag by fastforce
    moreover from r s' have "clientState s' = clientState s"
      using sendMessageSettle_state by fastforce
    ultimately show "clientState s' \<in> S"
      using inv by (simp add: readyOnlyIn_def)
  qed
next
  case (GetStatus req now)
  with inv st show ?thesis
    by (auto split: option.splits sum.splits)
next
  case (StatusSettles live now)
  with st have s': "s' = snd (statusSettle live now (s\<lparr>tasks := remove1 AwaitGetState (tasks s)\<rparr>))"
    by (auto dest!: resume_Some)
  show ?thesis
    unfolding readyOnlyIn_def
  proof
    assume r: "isClientReady s'"
    from r s' have "isClientReady s"
      using statusSettle_flag by fastforce
    moreover from s' have "clientState s' = clientState s"
      by (simp add: statusSettle_state)
    ultimately show "clientState s' \<in> S"
      using inv by (simp add: readyOnlyIn_def)
  qed
next
  case (GetRestart req)
  with inv st show ?thesis
    by (auto simp: restartGate_def readyOnlyIn_def split: option.splits)
next
  case (RestartSettles d)
  with st have s': "s' = snd (restartSettle d (s\<lparr>tasks := remove1 AwaitDestroy (tasks s)\<rparr>))"
    by (auto dest!: resume_Some)
  with inv show ?thesis
    by (simp add: readyOnlyIn_def restartSettle_flag restartSettle_state)
qed (use inv st S in \<open>auto simp: handler_defs readyOnlyIn_def\<close>)

lemma run_readyOnlyIn:
  assumes S: "''AUTHENTICATED'' \<in> S" "''CONNECTED'' \<in> S" "''LOADING'' \<in> S"
  shows "readyOnlyIn S s \<Longrightarrow> run envKey es s = Some s' \<Longrightarrow> readyOnlyIn S s'"
proof (induction es arbitrary: s)
  case Nil
  then show ?case by simp
next
  case (Cons e es)
  from Cons.prems(2) obtain s1 where e: "step envKey e s = Some s1"
    and es: "run envKey es s1 = Some s'"
    by (auto split: option.splits)
  from Cons.prems(1) e S have "readyOnlyIn S s1"
    by (simp add: step_readyOnlyIn)
  from this es show ?case
    by (rule Cons.IH)
qed

text \<open>
  The 5-second timer of the \<open>authenticated\<close> handler compares the state: it does nothing
  once the state is no longer \<open>AUTHENTICATED\<close>, as after a disconnect.
\<close>

lemma auth_grace_checks_state:
  "clientState s \<noteq> ''AUTHENTICATED'' \<Longrightarrow> timeout AuthGrace s = s"
  by simp

lemma auth_grace_after_disconnect:
  "run None [Authenticated, Disconnected, Fires AuthGrace] initialState
     = Some \<lparr>isClientReady = False, clientState = ''DISCONNECTED'', tasks = []\<rparr>"
  by (simp add: initialState_def on_authenticated_def on_disconnected_def resume_def)

text \<open>
  A request that passes the gate, followed by the settling of its send with nothing in
  between, is the handler run in one piece.
\<close>

lemma send_run_agrees:
  assumes "validateSecretKey envKey req = None"
    and "sendMessageGate s (number req) (message req) = Inr (chatId, m)"
    and "AwaitSend chatId m \<notin> set (tasks s)"
  shows "run envKey [PostSendMessage req, SendSettles chatId m (send chatId m)] s
    = Some (fst (snd (postSendMessage envKey send req s)))"
proof -
  have r: "remove1 (AwaitSend chatId m) (tasks s @ [AwaitSend chatId m]) = tasks s"
    using assms(3) by (simp add: remove1_append)
  have u: "snd (sendMessageSettle chatId sent (s\<lparr>tasks := tasks s\<rparr>))
      = snd (sendMessageSettle chatId sent s)" for sent
    by simp
  from assms(1,2) show ?thesis
    by (simp add: postSendMessage_def sendMessageHandler_def resume_def r
        split: prod.splits)
qed

section \<open>The readiness gate\<close>

text \<open>
  C1. A request to POST /send-message that passes the secret-key check, carries both
  parameters and a valid number is answered 503 when the ready flag is off or the
  state is neither \<open>CONNECTED\<close> nor \<open>AUTHENTICATED\<close>: the state is unchanged,
  \<open>client.sendMessage\<close> is not called, and no send is left pending.
\<close>

theorem readiness_gate:
  assumes "validateSecretKey envKey req = None"
    and "number req = Some n" and "message req = Some m" and "m \<noteq> []"
    and "isValidPhoneNumber n"
    and "\<not> isClientReady s \<or> clientState s \<notin> {''CONNECTED'', ''AUTHENTICATED''}"
  shows "postSendMessage envKey send req s = (notReady s, s, [])
    \<and> statusCode (notReady s) = 503
    \<and> step envKey (PostSendMessage req) s = Some s"
  using assms valid_nonempty [of n]
  by (auto simp: postSendMessage_def sendMessageHandler_def notReady_def respond_def)

theorem readiness_gate_witness:
  "validateSecretKey (Some ''k'')
      \<lparr>headerKey = Some ''k'', bodyKey = None, number = Some ''081234567890'',
       message = Some ''halo''\<rparr> = None
   \<and> isValidPhoneNumber ''081234567890''
   \<and> postSendMessage (Some ''k'') (\<lambda>c m. Resolved ''id'')
      \<lparr>headerKey = Some ''k'', bodyKey = None, number = Some ''081234567890'',
       message = Some ''halo''\<rparr>
      \<lparr>isClientReady = False, clientState = ''DISCONNECTED'', tasks = []\<rparr>
     = (notReady \<lparr>isClientReady = False, clientState = ''DISCONNECTED'', tasks = []\<rparr>,
        \<lparr>isClientReady = False, clientState = ''DISCONNECTED'', tasks = []\<rparr>, [])
   \<and> statusCode (notReady \<lparr>isClientReady = False, clientState = ''DISCONNECTED'', tasks = []\<rparr>) = 503"
proof -
  let ?req = "\<lparr>headerKey = Some ''k'', bodyKey = None, number = Some ''081234567890'',
       message = Some ''halo''\<rparr>"
  let ?s = "\<lparr>isClientReady = False, clientState = ''DISCONNECTED'', tasks = []\<rparr>"
  have a: "validateSecretKey (Some ''k'') ?req = None"
    by (simp add: validateSecretKey_def truthy_def)
  have v: "isValidPhoneNumber ''081234567890''"
    by (simp add: isValidPhoneNumber_def stripNonDigits_def isDigit_def)
  have g: "\<not> isClientReady ?s \<or> clientState ?s \<notin> {''CONNECTED'', ''AUTHENTICATED''}"
    by simp
  from readiness_gate [OF a _ _ _ v g, of "''halo''" "\<lambda>c m. Resolved ''id''"] a v
  show ?thesis by simp
qed

section \<open>The grace timers\<close>

text \<open>
  C2. The claim is that a grace timer firing after a disconnect promotes nothing. The
  3-second timer armed at loading progress 100 tests only the ready flag, which the
  disconnect has just cleared: loading at 100, then a disconnect, then the timer, and
  the session is \<open>CONNECTED\<close> with the flag on.
\<close>

theorem loading_grace_after_disconnect:
  "run None [LoadingScreen 100, Disconnected] initialState
     = Some \<lparr>isClientReady = False, clientState = ''DISCONNECTED'', tasks = [Timer LoadingGrace]\<rparr>
   \<and> run None [LoadingScreen 100, Disconnected, Fires LoadingGrace] initialState
     = Some \<lparr>isClientReady = True, clientState = ''CONNECTED'', tasks = []\<rparr>"
  by (simp add: initialState_def on_loading_screen_def on_disconnected_def resume_def)

section \<open>The ready flag and the state\<close>

text \<open>
  C3, as amended. In every state reached from the initial one by events of the client,
  timer firings and requests, the ready flag is on only in the states \<open>AUTHENTICATED\<close>,
  \<open>CONNECTED\<close> and \<open>LOADING\<close>. Every step other than a loading-screen event preserves
  the contract that the flag is on only in \<open>AUTHENTICATED\<close> and \<open>CONNECTED\<close>; a
  loading-screen event sets the state to \<open>LOADING\<close> and leaves the flag as it is.
\<close>

theorem ready_contract_reachable:
  assumes "run envKey es initialState = Some s"
  shows "readyContractLoading s
    \<and> (\<forall>e s'. (\<forall>p. e \<noteq> LoadingScreen p) \<and> readyContract s \<and> step envKey e s = Some s'
          \<longrightarrow> readyContract s')
    \<and> (\<forall>p. step envKey (LoadingScreen p) s = Some (on_loading_screen p s)
          \<and> isClientReady (on_loading_screen p s) = isClientReady s
          \<and> clientState (on_loading_screen p s) = ''LOADING'')"
proof -
  have "readyContractLoading initialState"
    by (simp add: readyContractLoading_def readyOnlyIn_def initialState_def)
  with assms have "readyContractLoading s"
    unfolding readyContractLoading_def by (simp add: run_readyOnlyIn)
  moreover have "readyContract s'"
    if "\<forall>p. e \<noteq> LoadingScreen p" and "readyContract s" and "step envKey e s = Some s'"
    for e s'
    using that unfolding readyContract_def by (simp add: step_readyOnlyIn)
  ultimately show ?thesis
    using loading_screen_effect by auto
qed

theorem ready_contract_reachable_witness:
  "run None [Authenticated, Fires AuthGrace] initialState
     = Some \<lparr>isClientReady = True, clientState = ''CONNECTED'', tasks = []\<rparr>
   \<and> readyContractLoading \<lparr>isClientReady = True, clientState = ''CONNECTED'', tasks = []\<rparr>
   \<and> readyContract \<lparr>isClientReady = False, clientState = ''DISCONNECTED'', tasks = []\<rparr>
   \<and> clientState (on_loading_screen 50
        \<lparr>isClientReady = True, clientState = ''CONNECTED'', tasks = []\<rparr>) = ''LOADING''"
proof -
  let ?s = "\<lparr>isClientReady = True, clientState = ''CONNECTED'', tasks = []\<rparr>"
  have r: "run None [Authenticated, Fires AuthGrace] initialState = Some ?s"
    by (simp add: initialState_def on_authenticated_def resume_def)
  have c: "readyContract ?s"
    by (simp add: readyContract_def readyOnlyIn_def)
  have d: "step None Disconnected ?s
    = Some \<lparr>isClientReady = False, clientState = ''DISCONNECTED'', tasks = []\<rparr>"
    by (simp add: on_disconnected_def)
  have n: "\<forall>p. Disconnected \<noteq> LoadingScreen p"
    by simp
  from ready_contract_reachable [OF r] r c d n show ?thesis
    by blast
qed

text \<open>
  C3 as stated fails: the session authenticates, the 5-second timer promotes it, and a
  loading-screen event then arrives. The flag is on in state \<open>LOADING\<close>.
\<close>

theorem ready_contract_counterexample:
  "run None [Authenticated, Fires AuthGrace, LoadingScreen 50] initialState
     = Some \<lparr>isClientReady = True, clientState = ''LOADING'', tasks = []\<rparr>
   \<and> \<not> readyContract \<lparr>isClientReady = True, clientState = ''LOADING'', tasks = []\<rparr>"
  by (simp add: initialState_def on_authenticated_def on_loading_screen_def resume_def
      readyContract_def readyOnlyIn_def)

section \<open>Classification of a failed send\<close>

text \<open>
  C4, as amended. When the send fails with a message that contains
  \<open>Evaluation failed\<close> and contains neither \<open>Chat not found\<close> nor
  \<open>phone number is not registered\<close>, the answer is 503, the state becomes \<open>ERROR\<close>,
  the ready flag is cleared, and the gate rejects a following valid request.
\<close>

theorem evaluation_failed_demotes:
  assumes "str_includes msg ''Evaluation failed''"
    and "\<not> str_includes msg ''Chat not found''"
    and "\<not> str_includes msg ''phone number is not registered''"
  shows "statusCode (fst (sendMessageSettle chatId (Rejected msg) s)) = 503
    \<and> snd (sendMessageSettle chatId (Rejected msg) s)
        = s\<lparr>isClientReady := False, clientState := ''ERROR''\<rparr>
    \<and> isClientReady (snd (sendMessageSettle chatId (Rejected msg) s)) = False
    \<and> clientState (snd (sendMessageSettle chatId (Rejected msg) s)) = ''ERROR''
    \<and> sendMessageGate (snd (sendMessageSettle chatId (Rejected msg) s))
         (Some ''081234567890'') (Some ''halo'')
        = Inl (notReady (snd (sendMessageSettle chatId (Rejected msg) s)))"
proof -
  have v: "isValidPhoneNumber ''081234567890''"
    by (simp add: isValidPhoneNumber_def stripNonDigits_def isDigit_def)
  from assms v show ?thesis
    by (simp add: sendMessageSettle_def respond_def)
qed

theorem evaluation_failed_demotes_witness:
  "str_includes ''Evaluation failed: Target closed'' ''Evaluation failed''
   \<and> statusCode (fst (sendMessageSettle ''6281234567890@c.us''
        (Rejected ''Evaluation failed: Target closed'')
        \<lparr>isClientReady = True, clientState = ''CONNECTED'', tasks = []\<rparr>)) = 503
   \<and> snd (sendMessageSettle ''6281234567890@c.us''
        (Rejected ''Evaluation failed: Target closed'')
        \<lparr>isClientReady = True, clientState = ''CONNECTED'', tasks = []\<rparr>)
     = \<lparr>isClientReady = False, clientState = ''ERROR'', tasks = []\<rparr>"
proof -
  have a: "str_includes ''Evaluation failed: Target closed'' ''Evaluation failed''"
    by simp
  have b: "\<not> str_includes ''Evaluation failed: Target closed'' ''Chat not found''"
    by simp
  have c: "\<not> str_includes ''Evaluation failed: Target closed'' ''phone number is not registered''"
    by simp
  from evaluation_failed_demotes [OF a b c, of "''6281234567890@c.us''"
      "\<lparr>isClientReady = True, clientState = ''CONNECTED'', tasks = []\<rparr>"] a
  show ?thesis by simp
qed

text \<open>
  C4 as stated fails: the \<open>catch\<close> block tests for \<open>Chat not found\<close> first, so a message
  holding both phrases is answered 404 and the session is left as it was.
\<close>

theorem evaluation_failed_counterexample:
  "str_includes ''Evaluation failed: Chat not found'' ''Evaluation failed''
   \<and> statusCode (fst (sendMessageSettle ''6281234567890@c.us''
        (Rejected ''Evaluation failed: Chat not found'')
        \<lparr>isClientReady = True, clientState = ''CONNECTED'', tasks = []\<rparr>)) = 404
   \<and> snd (sendMessageSettle ''6281234567890@c.us''
        (Rejected ''Evaluation failed: Chat not found'')
        \<lparr>isClientReady = True, clientState = ''CONNECTED'', tasks = []\<rparr>)
     = \<lparr>isClientReady = True, clientState = ''CONNECTED'', tasks = []\<rparr>"
  by (simp add: sendMessageSettle_def respond_def)

section \<open>The status route\<close>

text \<open>
  C5, as amended. An authenticated GET /status never changes the state variable or the
  pending work once it has answered. It asks the client for the live state only while
  the ready flag is on: the handler then suspends on \<open>client.getState()\<close>, reports the
  live state when the query succeeds, and reports \<open>ERROR\<close> with \<open>clientReady\<close> false and
  clears the flag when the query fails. While the flag is off it answers at once with
  the last-known state, and no query is left pending.
\<close>

theorem status_effect:
  assumes "validateSecretKey envKey req = None"
  shows "clientState (snd (getStatus envKey live now req s)) = clientState s
    \<and> tasks (snd (getStatus envKey live now req s)) = tasks s
    \<and> isClientReady (snd (getStatus envKey live now req s))
        = (isClientReady s \<and> (case live of Resolved current \<Rightarrow> True | Rejected e \<Rightarrow> False))
    \<and> fst (getStatus envKey live now req s)
        = (if isClientReady s
           then (case live of
                   Resolved current \<Rightarrow> statusResponse True current now
                 | Rejected e \<Rightarrow> statusResponse False ''ERROR'' now)
           else statusResponse False (clientState s) now)
    \<and> clientState (snd (statusSettle live now s)) = clientState s
    \<and> statusGate now s
        = (if isClientReady s then Inr ()
           else Inl (statusResponse False (clientState s) now))
    \<and> step envKey (GetStatus req now) s
        = Some (if isClientReady s then s\<lparr>tasks := tasks s @ [AwaitGetState]\<rparr> else s)"
proof -
  have handler: "clientState (snd (getStatus envKey live now req s)) = clientState s
    \<and> tasks (snd (getStatus envKey live now req s)) = tasks s
    \<and> isClientReady (snd (getStatus envKey live now req s))
        = (isClientReady s \<and> (case live of Resolved current \<Rightarrow> True | Rejected e \<Rightarrow> False))
    \<and> fst (getStatus envKey live now req s)
        = (if isClientReady s
           then (case live of
                   Resolved current \<Rightarrow> statusResponse True current now
                 | Rejected e \<Rightarrow> statusResponse False ''ERROR'' now)
           else statusResponse False (clientState s) now)
    \<and> clientState (snd (statusSettle live now s)) = clientState s"
    using assms
    by (simp add: getStatus_def statusHandler_def statusGate_def statusSettle_def
        split: outcome.splits)
  have gate: "statusGate now s
        = (if isClientReady s then Inr ()
           else Inl (statusResponse False (clientState s) now))"
    by (simp add: statusGate_def)
  have query: "step envKey (GetStatus req now) s
        = Some (if isClientReady s then s\<lparr>tasks := tasks s @ [AwaitGetState]\<rparr> else s)"
    using assms by (simp add: statusGate_def)
  from handler gate query show ?thesis
    by simp
qed

theorem status_effect_witness:
  "validateSecretKey (Some ''k'')
      \<lparr>headerKey = Some ''k'', bodyKey = None, number = None, message = None\<rparr> = None
   \<and> run (Some ''k'') [Ready] initialState
     = Some \<lparr>isClientReady = True, clientState = ''CONNECTED'', tasks = []\<rparr>
   \<and> getStatus (Some ''k'') (Resolved ''CONNECTED'') ''t''
      \<lparr>headerKey = Some ''k'', bodyKey = None, number = None, message = None\<rparr>
      \<lparr>isClientReady = True, clientState = ''CONNECTED'', tasks = []\<rparr>
     = (statusResponse True ''CONNECTED'' ''t'',
        \<lparr>isClientReady = True, clientState = ''CONNECTED'', tasks = []\<rparr>)
   \<and> step (Some ''k'')
      (GetStatus \<lparr>headerKey = Some ''k'', bodyKey = None, number = None, message = None\<rparr> ''t'')
      \<lparr>isClientReady = True, clientState = ''CONNECTED'', tasks = []\<rparr>
     = Some \<lparr>isClientReady = True, clientState = ''CONNECTED'', tasks = [AwaitGetState]\<rparr>
   \<and> step (Some ''k'')
      (GetStatus \<lparr>headerKey = Some ''k'', bodyKey = None, number = None, message = None\<rparr> ''t'')
      initialState
     = Some initialState"
proof -
  let ?req = "\<lparr>headerKey = Some ''k'', bodyKey = None, number = None, message = None\<rparr>"
  let ?s = "\<lparr>isClientReady = True, clientState = ''CONNECTED'', tasks = []\<rparr>"
  have a: "validateSecretKey (Some ''k'') ?req = None"
    by (simp add: validateSecretKey_def truthy_def)
  have r: "run (Some ''k'') [Ready] initialState = Some ?s"
    by (simp add: initialState_def on_ready_def)
  have "snd (getStatus (Some ''k'') (Resolved ''CONNECTED'') ''t'' ?req ?s) = ?s"
    using status_effect [OF a, of "Resolved ''CONNECTED''" "''t''" ?s]
    by (cases "snd (getStatus (Some ''k'') (Resolved ''CONNECTED'') ''t'' ?req ?s)") simp
  moreover have "fst (getStatus (Some ''k'') (Resolved ''CONNECTED'') ''t'' ?req ?s)
      = statusResponse True ''CONNECTED'' ''t''"
    using status_effect [OF a, of "Resolved ''CONNECTED''" "''t''" ?s] by simp
  moreover have "step (Some ''k'') (GetStatus ?req ''t'') ?s
      = Some \<lparr>isClientReady = True, clientState = ''CONNECTED'', tasks = [AwaitGetState]\<rparr>"
    using status_effect [OF a, of "Resolved ''CONNECTED''" "''t''" ?s] by simp
  moreover have "step (Some ''k'') (GetStatus ?req ''t'') initialState = Some initialState"
    using status_effect [OF a, of "Resolved ''CONNECTED''" "''t''" initialState]
    by (simp add: initialState_def)
  ultimately show ?thesis
    using a r by (simp add: prod_eq_iff)
qed

text \<open>
  C5 as stated fails: with the flag on and the state \<open>CONNECTED\<close>, a failing query is
  reported as \<open>ERROR\<close>, not as the last-known state, and the flag is cleared.
\<close>

theorem status_counterexample:
  "getStatus (Some ''k'') (Rejected ''Session closed'') ''t''
      \<lparr>headerKey = Some ''k'', bodyKey = None, number = None, message = None\<rparr>
      \<lparr>isClientReady = True, clientState = ''CONNECTED'', tasks = []\<rparr>
     = (statusResponse False ''ERROR'' ''t'',
        \<lparr>isClientReady = False, clientState = ''CONNECTED'', tasks = []\<rparr>)"
  by (simp add: getStatus_def validateSecretKey_def truthy_def statusHandler_def
      statusGate_def statusSettle_def)

section \<open>The normaliser\<close>

text \<open>
  C6. When the stripped digit string starts with \<open>0\<close>, formatting replaces that digit by
  \<open>62\<close>; otherwise \<open>62\<close> is prepended when the digits do not start with \<open>62\<close> and are more
  than ten; the suffix \<open>@c.us\<close> is appended. The raw input \<open>081234567890\<close> becomes
  \<open>6281234567890@c.us\<close>.
\<close>

theorem formatPhoneNumber_refines_spec:
  "formatPhoneNumber raw = normalizeSpec raw
   \<and> formatPhoneNumber ''081234567890'' = ''6281234567890@c.us''"
proof
  show "formatPhoneNumber raw = normalizeSpec raw"
  proof (cases "stripNonDigits raw")
    case Nil
    then show ?thesis
      by (simp add: formatPhoneNumber_def normalizeSpec_def substring_def)
  next
    case (Cons c cs)
    then show ?thesis
      by (simp add: formatPhoneNumber_def normalizeSpec_def substring_def Let_def)
  qed
next
  show "formatPhoneNumber ''081234567890'' = ''6281234567890@c.us''"
    by (simp add: formatPhoneNumber_def stripNonDigits_def isDigit_def substring_def)
qed

text \<open>
  C7, as amended. For a number with 10 to 15 digits that contains \<open>@c.us\<close> at no
  position, the address ends in \<open>@c.us\<close>, and its digit portion consists of digits and
  has the input's digit count plus 1 when the digits start with \<open>0\<close>, plus 2 when they
  start with neither \<open>0\<close> nor \<open>62\<close> and are more than ten, and plus 0 otherwise.
\<close>

theorem digit_portion_length:
  assumes "isValidPhoneNumber raw" and "\<not> str_includes raw ''@c.us''"
  shows "suffix ''@c.us'' (chatIdOf raw)
    \<and> list_all isDigit (digitPortion (chatIdOf raw))
    \<and> length (digitPortion (chatIdOf raw)) = length (stripNonDigits raw) +
        (if startsWith (stripNonDigits raw) ''0'' then 1
         else if \<not> startsWith (stripNonDigits raw) ''62'' \<and> length (stripNonDigits raw) > 10 then 2
         else 0)"
proof (cases "stripNonDigits raw")
  case Nil
  with assms show ?thesis by (simp add: isValidPhoneNumber_def)
next
  case (Cons c cs)
  have d: "list_all isDigit (c # cs)"
    using digits_filter [of raw] Cons by simp
  have two: "isDigit CHR ''6''" "isDigit CHR ''2''"
    by (simp_all add: isDigit_def)
  from assms Cons d two show ?thesis
    by (simp add: chatIdOf_def formatPhoneNumber_def digitPortion_def substring_def
        Let_def suffix_def)
qed

theorem digit_portion_length_witness:
  "isValidPhoneNumber ''081234567890'' \<and> \<not> str_includes ''081234567890'' ''@c.us''
   \<and> suffix ''@c.us'' (chatIdOf ''081234567890'')
   \<and> length (digitPortion (chatIdOf ''081234567890'')) = 13"
proof -
  have v: "isValidPhoneNumber ''081234567890''"
    by (simp add: isValidPhoneNumber_def stripNonDigits_def isDigit_def)
  have n: "\<not> str_includes ''081234567890'' ''@c.us''"
    by simp
  have d: "stripNonDigits ''081234567890'' = ''081234567890''"
    by (simp add: stripNonDigits_def isDigit_def)
  from digit_portion_length [OF v n] v n d show ?thesis by simp
qed

text \<open>
  C7 as stated fails twice. The twelve digits \<open>081234567890\<close> give the thirteen digits
  \<open>6281234567890\<close>, one more, neither as many nor two more. And a number that holds
  \<open>@c.us\<close> before its end, such as \<open>0812@c.us34567890\<close>, has twelve digits and does not
  end in the suffix, yet is taken as the address unchanged, so the address does not end
  in \<open>@c.us\<close> either.
\<close>

theorem digit_portion_plus_one_counterexample:
  "isValidPhoneNumber ''081234567890'' \<and> \<not> str_includes ''081234567890'' ''@c.us''
   \<and> length (stripNonDigits ''081234567890'') = 12
   \<and> digitPortion (chatIdOf ''081234567890'') = ''6281234567890''
   \<and> length (digitPortion (chatIdOf ''081234567890'')) \<noteq> length (stripNonDigits ''081234567890'') + 0
   \<and> length (digitPortion (chatIdOf ''081234567890'')) \<noteq> length (stripNonDigits ''081234567890'') + 2
   \<and> isValidPhoneNumber ''0812@c.us34567890''
   \<and> \<not> suffix ''@c.us'' ''0812@c.us34567890''
   \<and> chatIdOf ''0812@c.us34567890'' = ''0812@c.us34567890''
   \<and> \<not> suffix ''@c.us'' (chatIdOf ''0812@c.us34567890'')"
proof -
  have one: "isValidPhoneNumber ''081234567890'' \<and> \<not> str_includes ''081234567890'' ''@c.us''
   \<and> length (stripNonDigits ''081234567890'') = 12
   \<and> digitPortion (chatIdOf ''081234567890'') = ''6281234567890''
   \<and> length (digitPortion (chatIdOf ''081234567890'')) \<noteq> length (stripNonDigits ''081234567890'') + 0
   \<and> length (digitPortion (chatIdOf ''081234567890'')) \<noteq> length (stripNonDigits ''081234567890'') + 2"
    by (simp add: isValidPhoneNumber_def stripNonDigits_def isDigit_def chatIdOf_def
        formatPhoneNumber_def digitPortion_def substring_def)
  have v: "isValidPhoneNumber ''0812@c.us34567890''"
    by (simp add: isValidPhoneNumber_def stripNonDigits_def isDigit_def)
  have c: "chatIdOf ''0812@c.us34567890'' = ''0812@c.us34567890''"
    by (simp add: chatIdOf_def)
  have n: "\<not> suffix ''@c.us'' ''0812@c.us34567890''"
    by (simp add: suffix_def)
  from one v c n show ?thesis
    by simp
qed

text \<open>
  C8. A number whose digit count is below 10 or above 15 is answered 400 by the
  send-message handler, whatever the message and the session state; the state is
  unchanged and \<open>client.sendMessage\<close> is not called. So is the route, for a request that
  passes the secret-key check. The number \<open>123\<close> gets the invalid-number response.
\<close>

theorem invalid_number_rejected:
  assumes "length (stripNonDigits n) < 10 \<or> length (stripNonDigits n) > 15"
  shows "statusCode (fst (sendMessageHandler send (Some n) msg s)) = 400
    \<and> snd (sendMessageHandler send (Some n) msg s) = (s, [])
    \<and> (validateSecretKey envKey req = None \<and> number req = Some n
        \<longrightarrow> statusCode (fst (postSendMessage envKey send req s)) = 400
          \<and> snd (postSendMessage envKey send req s) = (s, [])
          \<and> step envKey (PostSendMessage req) s = Some s)
    \<and> sendMessageHandler send (Some ''123'') (Some ''halo'') s = (invalidNumber, s, [])"
proof -
  from assms have inv: "\<not> isValidPhoneNumber n"
    by (auto simp: isValidPhoneNumber_def)
  have e: "sendMessageHandler send (Some ''123'') (Some ''halo'') s = (invalidNumber, s, [])"
    by (simp add: sendMessageHandler_def isValidPhoneNumber_def stripNonDigits_def isDigit_def)
  have st: "validateSecretKey envKey req = None \<and> number req = Some n
     \<longrightarrow> step envKey (PostSendMessage req) s = Some s"
    using gate_invalid [OF inv, of s "message req"] by auto
  have route: "validateSecretKey envKey req = None \<and> number req = Some n
     \<longrightarrow> postSendMessage envKey send req s = sendMessageHandler send (Some n) (message req) s"
    by (simp add: postSendMessage_def)
  from handler_invalid [OF inv, of send msg s] handler_invalid [OF inv, of send "message req" s]
    e st route
  show ?thesis by simp
qed

theorem invalid_number_rejected_witness:
  "length (stripNonDigits ''123'') < 10
   \<and> statusCode (fst (sendMessageHandler (\<lambda>c m. Resolved ''id'') (Some ''123'') (Some ''halo'')
        \<lparr>isClientReady = True, clientState = ''CONNECTED'', tasks = []\<rparr>)) = 400
   \<and> snd (sendMessageHandler (\<lambda>c m. Resolved ''id'') (Some ''123'') (Some ''halo'')
        \<lparr>isClientReady = True, clientState = ''CONNECTED'', tasks = []\<rparr>)
     = (\<lparr>isClientReady = True, clientState = ''CONNECTED'', tasks = []\<rparr>, [])
   \<and> statusCode (fst (postSendMessage (Some ''k'') (\<lambda>c m. Resolved ''id'')
        \<lparr>headerKey = Some ''k'', bodyKey = None, number = Some ''123'', message = Some ''halo''\<rparr>
        \<lparr>isClientReady = True, clientState = ''CONNECTED'', tasks = []\<rparr>)) = 400"
proof -
  let ?req = "\<lparr>headerKey = Some ''k'', bodyKey = None, number = Some ''123'',
       message = Some ''halo''\<rparr>"
  have l: "length (stripNonDigits ''123'') < 10 \<or> length (stripNonDigits ''123'') > 15"
    by (simp add: stripNonDigits_def isDigit_def)
  have l': "length (stripNonDigits ''123'') < 10"
    by (simp add: stripNonDigits_def isDigit_def)
  have a: "validateSecretKey (Some ''k'') ?req = None \<and> number ?req = Some ''123''"
    by (simp add: validateSecretKey_def truthy_def)
  from invalid_number_rejected [OF l, of "\<lambda>c m. Resolved ''id''" "Some ''halo''"
      "\<lparr>isClientReady = True, clientState = ''CONNECTED'', tasks = []\<rparr>" "Some ''k''" ?req] a l'
  show ?thesis by blast
qed

text \<open>
  C9. A number that ends in the domain suffix \<open>@c.us\<close> is its own address, and taking
  the address of the address gives the same address.
\<close>

theorem passthrough_idempotent:
  assumes "suffix ''@c.us'' raw"
  shows "chatIdOf raw = raw \<and> chatIdOf (chatIdOf raw) = chatIdOf raw"
  using assms suffix_str_includes [of "''@c.us''" raw] by (simp add: chatIdOf_def)

theorem passthrough_idempotent_witness:
  "suffix ''@c.us'' ''6281234567890@c.us''
   \<and> chatIdOf ''6281234567890@c.us'' = ''6281234567890@c.us''
   \<and> chatIdOf (chatIdOf ''6281234567890@c.us'') = ''6281234567890@c.us''"
proof -
  have h: "suffix ''@c.us'' ''6281234567890@c.us''"
    by (simp add: suffix_def)
  from passthrough_idempotent [OF h] h show ?thesis by simp
qed

text \<open>
  C10. When the number contains \<open>@c.us\<close> at any position and has 10 to 15 digits in
  all, an authenticated request with a message, made while the gate is open, calls
  \<open>client.sendMessage\<close> once, with the raw number itself as the address.
\<close>

theorem suffixed_number_verbatim:
  assumes "validateSecretKey envKey req = None"
    and "number req = Some n" and "message req = Some m" and "m \<noteq> []"
    and "str_includes n ''@c.us''" and "isValidPhoneNumber n"
    and "isClientReady s" and "clientState s \<in> {''CONNECTED'', ''AUTHENTICATED''}"
  shows "chatIdOf n = n
    \<and> sendMessageGate s (Some n) (Some m) = Inr (n, m)
    \<and> snd (snd (postSendMessage envKey send req s)) = [(n, m)]
    \<and> fst (postSendMessage envKey send req s) = fst (sendMessageSettle n (send n m) s)
    \<and> step envKey (PostSendMessage req) s = Some (s\<lparr>tasks := tasks s @ [AwaitSend n m]\<rparr>)"
proof -
  from assms(5) have c: "chatIdOf n = n"
    by (simp add: chatIdOf_def)
  from assms(6) have ne: "n \<noteq> []"
    by (rule valid_nonempty)
  from assms c ne have g: "sendMessageGate s (Some n) (Some m) = Inr (n, m)"
    by auto
  from assms(1-3) c g show ?thesis
    by (simp add: postSendMessage_def sendMessageHandler_def split: prod.splits)
qed

theorem suffixed_number_verbatim_witness:
  "validateSecretKey (Some ''k'')
      \<lparr>headerKey = Some ''k'', bodyKey = None, number = Some ''+62 812-3456-7890@c.us (home)'',
       message = Some ''halo''\<rparr> = None
   \<and> str_includes ''+62 812-3456-7890@c.us (home)'' ''@c.us''
   \<and> isValidPhoneNumber ''+62 812-3456-7890@c.us (home)''
   \<and> snd (snd (postSendMessage (Some ''k'') (\<lambda>c m. Resolved ''id'')
      \<lparr>headerKey = Some ''k'', bodyKey = None, number = Some ''+62 812-3456-7890@c.us (home)'',
       message = Some ''halo''\<rparr>
      \<lparr>isClientReady = True, clientState = ''CONNECTED'', tasks = []\<rparr>))
     = [(''+62 812-3456-7890@c.us (home)'', ''halo'')]"
proof -
  let ?req = "\<lparr>headerKey = Some ''k'', bodyKey = None,
     number = Some ''+62 812-3456-7890@c.us (home)'', message = Some ''halo''\<rparr>"
  let ?s = "\<lparr>isClientReady = True, clientState = ''CONNECTED'', tasks = []\<rparr>"
  have a: "validateSecretKey (Some ''k'') ?req = None"
    by (simp add: validateSecretKey_def truthy_def)
  have i: "str_includes ''+62 812-3456-7890@c.us (home)'' ''@c.us''"
    by simp
  have v: "isValidPhoneNumber ''+62 812-3456-7890@c.us (home)''"
    by (simp add: isValidPhoneNumber_def stripNonDigits_def isDigit_def)
  have r: "isClientReady ?s" and c: "clientState ?s \<in> {''CONNECTED'', ''AUTHENTICATED''}"
    by simp_all
  from suffixed_number_verbatim [OF a _ _ _ i v r c, of "''halo''" "\<lambda>c m. Resolved ''id''"] a i v
  show ?thesis by simp
qed

end
